theory Spec2Isabelle
  imports Complex_Main
begin

section \<open>Python values at the boundary of the PV model\<close>

text \<open>
  The class \<open>PVModel\<close> of \<open>Proyecto_Final - Prueba_5/app2.py\<close> is dynamically typed: its
  constructor and \<open>validate_inputs\<close> receive arbitrary Python objects and test them with
  \<open>isinstance\<close> and \<open><=\<close>. A Python object is one of: an \<open>int\<close>, a \<open>bool\<close> (a subclass of
  \<open>int\<close>: \<open>True == 1\<close>), a finite \<open>float\<close>, one of the three non-finite floats, or an
  object that is not a number (\<open>str\<close>, \<open>None\<close>, a list, ...).

  Finite floats are idealised as real numbers: rounding, overflow and underflow of
  IEEE 754 arithmetic are not part of this development. The non-finite floats are kept
  as values of their own, since the comparisons of \<open>validate_inputs\<close> treat them specially.
\<close>

datatype pyval =
    PyInt int
  | PyBool bool
  | PyFloat real
  | PyNaN
  | PyPosInf
  | PyNegInf
  | PyNonNumber

datatype message =
    Irradiancia_msg    \<comment> \<open>La irradiancia (G) debe ser un numero positivo.\<close>
  | Temperatura_msg    \<comment> \<open>La temperatura (T) debe ser un numero positivo.\<close>
  | Serie_msg          \<comment> \<open>El numero de paneles en serie debe ser un entero positivo.\<close>
  | Paralelo_msg       \<comment> \<open>El numero de paneles en paralelo debe ser un entero positivo.\<close>
  | Argmax_empty_msg   \<comment> \<open>pandas: attempt to get argmax of an empty sequence\<close>

datatype error =
    ValueError message
  | TypeError
  | ZeroDivisionError

text \<open>
  How a call ends: it raises, it returns, or it goes on computing with NaN or an
  infinity, which the real-number idealisation does not follow any further.
\<close>

datatype 'a outcome =
    Raises error
  | Returns 'a
  | NonFinite

text \<open>\<open>isinstance(v, int)\<close> and \<open>isinstance(v, (int, float))\<close>.\<close>

fun isinstance_int :: "pyval \<Rightarrow> bool" where
  "isinstance_int (PyInt i) = True"
| "isinstance_int (PyBool b) = True"
| "isinstance_int v = False"

fun isinstance_int_float :: "pyval \<Rightarrow> bool" where
  "isinstance_int_float PyNonNumber = False"
| "isinstance_int_float v = True"

text \<open>
  \<open>v <= 0\<close> on a number. Every comparison with NaN is false. On an object that is not
  a number the comparison is never evaluated: \<open>or\<close> has already stopped at \<open>isinstance\<close>.
\<close>

fun le_zero :: "pyval \<Rightarrow> bool" where
  "le_zero (PyInt i) = (i \<le> 0)"
| "le_zero (PyBool b) = (\<not> b)"
| "le_zero (PyFloat r) = (r \<le> 0)"
| "le_zero PyNaN = False"
| "le_zero PyPosInf = False"
| "le_zero PyNegInf = True"
| "le_zero PyNonNumber = False"

text \<open>The value of a number that has one: an integer, and a finite real.\<close>

fun int_value :: "pyval \<Rightarrow> int option" where
  "int_value (PyInt i) = Some i"
| "int_value (PyBool b) = Some (if b then 1 else 0)"
| "int_value v = None"

fun finite_value :: "pyval \<Rightarrow> real option" where
  "finite_value (PyInt i) = Some (of_int i)"
| "finite_value (PyBool b) = Some (if b then 1 else 0)"
| "finite_value (PyFloat r) = Some r"
| "finite_value v = None"

text \<open>
  \<open>c * v\<close> for a float literal \<open>c\<close> and for an int literal \<open>c\<close>. A float times a
  \<open>str\<close>, \<open>None\<close> or a list raises \<open>TypeError\<close>.
\<close>

fun float_times :: "real \<Rightarrow> pyval \<Rightarrow> error + pyval" where
  "float_times c (PyInt i) = Inr (PyFloat (c * of_int i))"
| "float_times c (PyBool b) = Inr (PyFloat (c * (if b then 1 else 0)))"
| "float_times c (PyFloat r) = Inr (PyFloat (c * r))"
| "float_times c PyNaN = Inr PyNaN"
| "float_times c PyPosInf =
     Inr (if 0 < c then PyPosInf else if c < 0 then PyNegInf else PyNaN)"
| "float_times c PyNegInf =
     Inr (if 0 < c then PyNegInf else if c < 0 then PyPosInf else PyNaN)"
| "float_times c PyNonNumber = Inl TypeError"

fun int_times :: "int \<Rightarrow> pyval \<Rightarrow> error + pyval" where
  "int_times c (PyInt i) = Inr (PyInt (c * i))"
| "int_times c (PyBool b) = Inr (PyInt (c * (if b then 1 else 0)))"
| "int_times c (PyFloat r) = Inr (PyFloat (of_int c * r))"
| "int_times c PyNaN = Inr PyNaN"
| "int_times c PyPosInf =
     Inr (if 0 < c then PyPosInf else if c < 0 then PyNegInf else PyNaN)"
| "int_times c PyNegInf =
     Inr (if 0 < c then PyNegInf else if c < 0 then PyPosInf else PyNaN)"
| "int_times c PyNonNumber = Inl TypeError"

section \<open>The class PVModel\<close>

record PVModel =
  R_sh :: real
  k_i :: real
  T_n :: real
  q :: real
  n :: real
  K :: real
  E_g0 :: real
  R_s :: real
  num_panels_series :: pyval
  num_panels_parallel :: pyval
  I_sc :: pyval
  V_oc :: pyval
  N_s :: pyval

text \<open>
  \<open>__init__\<close>: the eight physical constants, the two arguments as given, and the three
  derived attributes, computed in the order of the source (lines 26 to 28).
\<close>

definition init :: "pyval \<Rightarrow> pyval \<Rightarrow> error + PVModel" where
  "init series parallel =
     (case float_times 9.35 parallel of
        Inl e \<Rightarrow> Inl e
      | Inr isc \<Rightarrow>
          (case float_times 47.4 series of
             Inl e \<Rightarrow> Inl e
           | Inr voc \<Rightarrow>
               (case int_times 72 series of
                  Inl e \<Rightarrow> Inl e
                | Inr ns \<Rightarrow>
                    Inr \<lparr> R_sh = 545.82, k_i = 0.037, T_n = 298,
                          q = 1.60217646 / 10 ^ 19, n = 1.0,
                          K = 1.3806503 / 10 ^ 23, E_g0 = 1.1, R_s = 0.39,
                          num_panels_series = series,
                          num_panels_parallel = parallel,
                          I_sc = isc, V_oc = voc, N_s = ns \<rparr>)))"

text \<open>
  \<open>validate_inputs\<close>: four checks in the order of the source, each raising
  \<open>ValueError\<close> with its own message; \<open>None\<close> when no check fails.
\<close>

definition validate_inputs :: "PVModel \<Rightarrow> pyval \<Rightarrow> pyval \<Rightarrow> error option" where
  "validate_inputs self G T =
     (if \<not> isinstance_int_float G \<or> le_zero G then Some (ValueError Irradiancia_msg)
      else if \<not> isinstance_int_float T \<or> le_zero T then Some (ValueError Temperatura_msg)
      else if \<not> isinstance_int (num_panels_series self) \<or> le_zero (num_panels_series self)
        then Some (ValueError Serie_msg)
      else if \<not> isinstance_int (num_panels_parallel self) \<or> le_zero (num_panels_parallel self)
        then Some (ValueError Paralelo_msg)
      else None)"

section \<open>Library functions the model calls\<close>

text \<open>
  \<open>numpy.linspace(start, stop, num)\<close> with the default \<open>endpoint=True\<close>, following
  numpy's implementation: \<open>arange(0, num)\<close> is scaled by the step (or, when the step is
  zero, divided by \<open>num - 1\<close> and multiplied by the span), shifted by \<open>start\<close>, and
  the last sample is overwritten by \<open>stop\<close> when there are at least two samples.
\<close>

definition linspace :: "real \<Rightarrow> real \<Rightarrow> nat \<Rightarrow> real list" where
  "linspace start stop num =
     (let dv = num - 1;
          delta = stop - start;
          step = delta / of_nat dv;
          y = map (\<lambda>i. (if 0 < dv
                           then (if step = 0 then of_nat i / of_nat dv * delta
                                 else of_nat i * step)
                           else of_nat i * delta) + start) [0..<num]
      in if 1 < num then y[num - 1 := stop] else y)"

text \<open>
  \<open>scipy.optimize.fsolve\<close> is not code of this repository and is a parameter of the
  model. Given the function, the starting estimate and the extra argument, a solver
  yields its final iterate and whether MINPACK reported convergence (\<open>ier = 1\<close>).
  As \<open>modelo_pv\<close> calls it (without \<open>full_output\<close>), \<open>fsolve\<close> hands back the iterate
  alone; when \<open>ier\<close> is not 1 it issues a \<open>RuntimeWarning\<close> and still returns.
  The iterate has the shape of the starting estimate.
\<close>

type_synonym solver =
  "(real list \<Rightarrow> real list \<Rightarrow> real list) \<Rightarrow> real list \<Rightarrow> real list \<Rightarrow> real list \<times> bool"

definition fsolve_shape :: "solver \<Rightarrow> bool" where
  "fsolve_shape fsolve = (\<forall>func x0 args. length (fst (fsolve func x0 args)) = length x0)"

text \<open>
  \<open>Series.idxmax\<close> of pandas on the default index \<open>0, 1, 2, ...\<close>: the position of
  the maximum, the first one when the maximum occurs several times; \<open>ValueError\<close> on
  an empty series. \<open>idxmax_from b v i xs\<close> scans \<open>xs\<close>, whose head has position \<open>i\<close>,
  with the best position \<open>b\<close> and its value \<open>v\<close> so far.
\<close>

fun idxmax_from :: "nat \<Rightarrow> real \<Rightarrow> nat \<Rightarrow> real list \<Rightarrow> nat" where
  "idxmax_from b v i [] = b"
| "idxmax_from b v i (x # xs) =
     (if v < x then idxmax_from i x (Suc i) xs else idxmax_from b v (Suc i) xs)"

fun idxmax :: "real list \<Rightarrow> nat option" where
  "idxmax [] = None"
| "idxmax (x # xs) = Some (idxmax_from 0 x 1 xs)"

section \<open>The method modelo\_pv\<close>

text \<open>The data frame \<open>resultados\<close>: three columns of equal length.\<close>

record resultados =
  Corriente :: "real list"
  Voltaje :: "real list"
  Potencia :: "real list"

text \<open>
  The three currents of lines 56 to 60, as functions of the object and of the finite
  values of its attributes and of the arguments. \<open>I_ph\<close> is written with the literal
  298 of the source, not with \<open>T_n\<close>.
\<close>

definition I_rs :: "PVModel \<Rightarrow> real \<Rightarrow> real \<Rightarrow> real \<Rightarrow> real \<Rightarrow> real" where
  "I_rs self isc voc ns t =
     isc / (exp ((q self * voc) / (n self * ns * K self * t)) - 1)"

definition I_o :: "PVModel \<Rightarrow> real \<Rightarrow> real \<Rightarrow> real" where
  "I_o self irs t =
     irs * (t / T_n self) * exp ((q self * E_g0 self * (1 / T_n self - 1 / t)) / (n self * K self))"

definition I_ph :: "PVModel \<Rightarrow> real \<Rightarrow> real \<Rightarrow> real \<Rightarrow> real" where
  "I_ph self isc g t = (isc + k_i self * (t - 298)) * (g / 1000)"

text \<open>
  The residual \<open>f(I, V)\<close> of the single-diode equation (lines 68 to 70): on one sample,
  and elementwise on arrays, as numpy evaluates it.
\<close>

definition f1 :: "PVModel \<Rightarrow> real \<Rightarrow> real \<Rightarrow> real \<Rightarrow> real \<Rightarrow> real \<Rightarrow> real \<Rightarrow> real" where
  "f1 self iph io ns t I V =
     iph - io * (exp ((q self * (V + I * R_s self)) / (n self * K self * ns * t)) - 1)
       - (V + I * R_s self) / R_sh self - I"

definition f :: "PVModel \<Rightarrow> real \<Rightarrow> real \<Rightarrow> real \<Rightarrow> real \<Rightarrow> real list \<Rightarrow> real list \<Rightarrow> real list" where
  "f self iph io ns t Is Vs = map2 (f1 self iph io ns t) Is Vs"

text \<open>
  Lines 56 to 82 on finite values. A Python float division by zero raises
  \<open>ZeroDivisionError\<close> (lines 56 and 58); a numpy division by zero gives an infinity
  or NaN and the computation goes on with it (the quotient of line 56 and, inside
  \<open>f\<close>, the division by \<open>R_sh\<close>).
\<close>

definition modelo_pv_finite ::
  "solver \<Rightarrow> PVModel \<Rightarrow> real \<Rightarrow> real \<Rightarrow> real \<Rightarrow> real \<Rightarrow> real
     \<Rightarrow> (resultados \<times> real \<times> real \<times> real) outcome" where
  "modelo_pv_finite fsolve self isc voc ns g t =
     (if n self * ns * K self * t = 0 \<or> T_n self = 0 \<or> t = 0 \<or> n self * K self = 0
        then Raises ZeroDivisionError
      else if exp ((q self * voc) / (n self * ns * K self * t)) - 1 = 0 \<or> R_sh self = 0
        then NonFinite
      else
        (let irs = I_rs self isc voc ns t;
             io = I_o self irs t;
             iph = I_ph self isc g t;
             Vpv = linspace 0 voc 1000;
             Ipv = fst (fsolve (f self iph io ns t) (map ((*) isc) (replicate (length Vpv) 1)) Vpv);
             Ppv = map2 (*) Vpv Ipv
         in case idxmax Ppv of
              None \<Rightarrow> Raises (ValueError Argmax_empty_msg)
            | Some max_power_idx \<Rightarrow>
                Returns (\<lparr> Corriente = Ipv, Voltaje = Vpv, Potencia = Ppv \<rparr>,
                         Vpv ! max_power_idx, Ipv ! max_power_idx, Ppv ! max_power_idx)))"

text \<open>
  \<open>modelo_pv\<close>: validation first (line 54), then the computation. When validation has
  let a NaN or an infinity through, the computation runs on non-finite values.
\<close>

definition modelo_pv ::
  "solver \<Rightarrow> PVModel \<Rightarrow> pyval \<Rightarrow> pyval \<Rightarrow> (resultados \<times> real \<times> real \<times> real) outcome" where
  "modelo_pv fsolve self G T =
     (case validate_inputs self G T of
        Some e \<Rightarrow> Raises e
      | None \<Rightarrow>
          (case finite_value (I_sc self) of None \<Rightarrow> NonFinite | Some isc \<Rightarrow>
          (case finite_value (V_oc self) of None \<Rightarrow> NonFinite | Some voc \<Rightarrow>
          (case finite_value (N_s self) of None \<Rightarrow> NonFinite | Some ns \<Rightarrow>
          (case finite_value G of None \<Rightarrow> NonFinite | Some g \<Rightarrow>
          (case finite_value T of None \<Rightarrow> NonFinite | Some t \<Rightarrow>
             modelo_pv_finite fsolve self isc voc ns g t))))))"

text \<open>
  The call sequence of \<open>main\<close> and of the routes: construct the object, then call
  \<open>modelo_pv\<close> on it. This is the operation \<open>solve\<close> of the specification.
\<close>

definition solve ::
  "solver \<Rightarrow> pyval \<Rightarrow> pyval \<Rightarrow> pyval \<Rightarrow> pyval \<Rightarrow> (resultados \<times> real \<times> real \<times> real) outcome" where
  "solve fsolve series parallel G T =
     (case init series parallel of
        Inl e \<Rightarrow> Raises e
      | Inr pv \<Rightarrow> modelo_pv fsolve pv G T)"

section \<open>Notions of the specification\<close>

text \<open>
  The inputs the specification calls valid, in its own words: the two counts are
  positive integers, irradiance and temperature are finite, real and strictly positive.
  Python's \<open>True\<close> counts as the integer 1.
\<close>

definition positive_integer :: "pyval \<Rightarrow> bool" where
  "positive_integer v = (case int_value v of Some i \<Rightarrow> 0 < i | None \<Rightarrow> False)"

definition positive_finite :: "pyval \<Rightarrow> bool" where
  "positive_finite v = (case finite_value v of Some r \<Rightarrow> 0 < r | None \<Rightarrow> False)"

definition valid_input :: "pyval \<Rightarrow> pyval \<Rightarrow> pyval \<Rightarrow> pyval \<Rightarrow> bool" where
  "valid_input series parallel G T =
     (positive_integer series \<and> positive_integer parallel \<and> positive_finite G \<and> positive_finite T)"

text \<open>
  A solver that gives up at once: it hands back the starting estimate and reports that
  it has not converged.
\<close>

definition gives_up :: solver where
  "gives_up func x0 args = (x0, False)"

text \<open>
  The specification names two kinds of rejection. The code raises \<open>ValueError\<close> for
  all four checks, told apart by their messages: the messages about irradiance and
  temperature are the operating-condition error, the two about the counts are the
  array-configuration error.
\<close>

datatype spec_error = InvalidOperatingCondition | InvalidArrayConfig

fun taxonomy :: "error \<Rightarrow> spec_error option" where
  "taxonomy (ValueError Irradiancia_msg) = Some InvalidOperatingCondition"
| "taxonomy (ValueError Temperatura_msg) = Some InvalidOperatingCondition"
| "taxonomy (ValueError Serie_msg) = Some InvalidArrayConfig"
| "taxonomy (ValueError Paralelo_msg) = Some InvalidArrayConfig"
| "taxonomy e = None"

fun fails_with :: "'a outcome \<Rightarrow> spec_error \<Rightarrow> bool" where
  "fails_with (Raises e) c = (taxonomy e = Some c)"
| "fails_with r c = False"

text \<open>Whether a call returned a result.\<close>

fun returned :: "'a outcome \<Rightarrow> bool" where
  "returned (Returns r) = True"
| "returned r = False"

text \<open>
  The four checks of \<open>validate_inputs\<close> as a list, in the order of the source,
  each with its message; and the error of the first check of a list that fails.
\<close>

definition checks :: "PVModel \<Rightarrow> pyval \<Rightarrow> pyval \<Rightarrow> (bool \<times> message) list" where
  "checks self G T =
     [(\<not> isinstance_int_float G \<or> le_zero G, Irradiancia_msg),
      (\<not> isinstance_int_float T \<or> le_zero T, Temperatura_msg),
      (\<not> isinstance_int (num_panels_series self) \<or> le_zero (num_panels_series self), Serie_msg),
      (\<not> isinstance_int (num_panels_parallel self) \<or> le_zero (num_panels_parallel self),
       Paralelo_msg)]"

definition first_failing :: "(bool \<times> message) list \<Rightarrow> error option" where
  "first_failing cs = map_option (\<lambda>c. ValueError (snd c)) (find fst cs)"

text \<open>
  The three formulas of section 4.2 of the specification, in its words, with the
  physical constants and the reference temperature as arguments.
\<close>

definition spec_I_rs :: "real \<Rightarrow> real \<Rightarrow> real \<Rightarrow> real \<Rightarrow> real \<Rightarrow> real \<Rightarrow> real \<Rightarrow> real" where
  "spec_I_rs qe nid kB isc voc ns t = isc / (exp (qe * voc / (nid * ns * kB * t)) - 1)"

definition spec_I_o :: "real \<Rightarrow> real \<Rightarrow> real \<Rightarrow> real \<Rightarrow> real \<Rightarrow> real \<Rightarrow> real \<Rightarrow> real" where
  "spec_I_o qe nid kB eg0 tref irs t =
     irs * (t / tref) * exp ((qe * eg0 * (1 / tref - 1 / t)) / (nid * kB))"

definition spec_I_ph :: "real \<Rightarrow> real \<Rightarrow> real \<Rightarrow> real \<Rightarrow> real \<Rightarrow> real" where
  "spec_I_ph ki tref isc g t = (isc + ki * (t - tref)) * (g / 1000)"

section \<open>Auxiliary facts\<close>

lemma length_linspace: "length (linspace a b m) = m"
  by (simp add: linspace_def Let_def)

lemma linspace_nth:
  assumes "1 < m" "i < m"
  shows "linspace a b m ! i = a + of_nat i * ((b - a) / of_nat (m - 1))"
proof (cases "i = m - 1")
  case True
  have "of_nat (m - 1) * ((b - a) / of_nat (m - 1)) = b - a"
    using assms by simp
  then show ?thesis
    using assms True by (simp add: linspace_def Let_def)
next
  case False
  then show ?thesis
    using assms by (auto simp add: linspace_def Let_def)
qed

lemma idxmax_from_scan:
  assumes "length ps = i" "b < i" "ps ! b = v"
    and "\<forall>j<i. ps ! j \<le> v" "\<forall>j<b. ps ! j < v"
  shows "idxmax_from b v i xs < length (ps @ xs) \<and>
         (\<forall>j<length (ps @ xs). (ps @ xs) ! j \<le> (ps @ xs) ! idxmax_from b v i xs) \<and>
         (\<forall>j<idxmax_from b v i xs. (ps @ xs) ! j < (ps @ xs) ! idxmax_from b v i xs)"
  using assms
proof (induction xs arbitrary: ps i b v)
  case Nil
  then show ?case by simp
next
  case (Cons x xs)
  show ?case
  proof (cases "v < x")
    case True
    have "idxmax_from i x (Suc i) xs < length ((ps @ [x]) @ xs) \<and>
         (\<forall>j<length ((ps @ [x]) @ xs). ((ps @ [x]) @ xs) ! j \<le> ((ps @ [x]) @ xs) ! idxmax_from i x (Suc i) xs) \<and>
         (\<forall>j<idxmax_from i x (Suc i) xs. ((ps @ [x]) @ xs) ! j < ((ps @ [x]) @ xs) ! idxmax_from i x (Suc i) xs)"
    proof (rule Cons.IH)
      show "length (ps @ [x]) = Suc i" using Cons.prems(1) by auto
      show "i < Suc i" by simp
      show "(ps @ [x]) ! i = x" using Cons.prems(1) by (auto simp add: nth_append)
      show "\<forall>j<Suc i. (ps @ [x]) ! j \<le> x"
        using Cons.prems True by (auto simp add: nth_append less_Suc_eq intro: less_imp_le order.trans)
      show "\<forall>j<i. (ps @ [x]) ! j < x"
        using Cons.prems True by (auto simp add: nth_append intro: le_less_trans)
    qed
    then show ?thesis using True by simp
  next
    case False
    have "idxmax_from b v (Suc i) xs < length ((ps @ [x]) @ xs) \<and>
         (\<forall>j<length ((ps @ [x]) @ xs). ((ps @ [x]) @ xs) ! j \<le> ((ps @ [x]) @ xs) ! idxmax_from b v (Suc i) xs) \<and>
         (\<forall>j<idxmax_from b v (Suc i) xs. ((ps @ [x]) @ xs) ! j < ((ps @ [x]) @ xs) ! idxmax_from b v (Suc i) xs)"
    proof (rule Cons.IH)
      show "length (ps @ [x]) = Suc i" using Cons.prems(1) by auto
      show "b < Suc i" using Cons.prems by simp
      show "(ps @ [x]) ! b = v" using Cons.prems(1,2,3) by (auto simp add: nth_append)
      show "\<forall>j<Suc i. (ps @ [x]) ! j \<le> v"
        using Cons.prems False by (auto simp add: nth_append less_Suc_eq)
      show "\<forall>j<b. (ps @ [x]) ! j < v"
        using Cons.prems by (auto simp add: nth_append)
    qed
    then show ?thesis using False by simp
  qed
qed

lemma idxmax_first_maximum:
  assumes "idxmax ys = Some k"
  shows "k < length ys \<and> (\<forall>j<length ys. ys ! j \<le> ys ! k) \<and> (\<forall>j<k. ys ! j < ys ! k)"
proof (cases ys)
  case Nil
  then show ?thesis using assms by simp
next
  case (Cons x xs)
  have "idxmax_from 0 x 1 xs < length ([x] @ xs) \<and>
         (\<forall>j<length ([x] @ xs). ([x] @ xs) ! j \<le> ([x] @ xs) ! idxmax_from 0 x 1 xs) \<and>
         (\<forall>j<idxmax_from 0 x 1 xs. ([x] @ xs) ! j < ([x] @ xs) ! idxmax_from 0 x 1 xs)"
    by (rule idxmax_from_scan) simp_all
  then show ?thesis using assms Cons by simp
qed

lemma idxmax_nonempty: "ys \<noteq> [] \<Longrightarrow> \<exists>k. idxmax ys = Some k"
  by (cases ys) simp_all

lemma positive_integer_cases:
  "positive_integer v \<Longrightarrow> \<exists>i. int_value v = Some i \<and> 0 < i \<and> isinstance_int v \<and> \<not> le_zero v
      \<and> finite_value v = Some (of_int i)"
  by (cases v) (auto simp add: positive_integer_def split: if_splits)

lemma positive_finite_cases:
  "positive_finite v \<Longrightarrow> \<exists>r. finite_value v = Some r \<and> 0 < r \<and> isinstance_int_float v \<and> \<not> le_zero v"
  by (cases v) (auto simp add: positive_finite_def split: if_splits)

lemma init_of_integers:
  assumes "int_value s = Some sn" "int_value p = Some pn"
  shows "init s p = Inr \<lparr> R_sh = 545.82, k_i = 0.037, T_n = 298,
                          q = 1.60217646 / 10 ^ 19, n = 1.0,
                          K = 1.3806503 / 10 ^ 23, E_g0 = 1.1, R_s = 0.39,
                          num_panels_series = s,
                          num_panels_parallel = p,
                          I_sc = PyFloat (9.35 * of_int pn), V_oc = PyFloat (47.4 * of_int sn),
                          N_s = PyInt (72 * sn) \<rparr>"
  using assms by (cases s; cases p) (auto simp add: init_def split: if_splits)

lemma validate_inputs_valid:
  assumes "valid_input s p G T" "init s p = Inr pv"
  shows "validate_inputs pv G T = None"
proof -
  obtain sn where s: "int_value s = Some sn" "isinstance_int s" "\<not> le_zero s"
    using assms(1) positive_integer_cases unfolding valid_input_def by blast
  obtain pn where p: "int_value p = Some pn" "isinstance_int p" "\<not> le_zero p"
    using assms(1) positive_integer_cases unfolding valid_input_def by blast
  have g: "isinstance_int_float G" "\<not> le_zero G"
    using assms(1) positive_finite_cases unfolding valid_input_def by blast+
  have t: "isinstance_int_float T" "\<not> le_zero T"
    using assms(1) positive_finite_cases unfolding valid_input_def by blast+
  have "num_panels_series pv = s" "num_panels_parallel pv = p"
    using assms(2) init_of_integers [OF s(1) p(1)] by auto
  then show ?thesis
    using s p g t by (simp add: validate_inputs_def)
qed

lemma denominators_nonzero:
  assumes "0 < sn" "0 < t" "init s p = Inr pv" "int_value s = Some sn" "int_value p = Some pn"
  shows "n pv * of_int (72 * sn) * K pv * t \<noteq> 0" "T_n pv \<noteq> 0" "n pv * K pv \<noteq> 0" "R_sh pv \<noteq> 0"
    "exp ((q pv * (47.4 * of_int sn)) / (n pv * of_int (72 * sn) * K pv * t)) - 1 \<noteq> 0"
proof -
  have pv: "n pv = 1" "K pv = 1.3806503 / 10 ^ 23" "T_n pv = 298" "R_sh pv = 545.82"
     "q pv = 1.60217646 / 10 ^ 19"
    using assms(3) init_of_integers [OF assms(4,5)] by auto
  show "n pv * of_int (72 * sn) * K pv * t \<noteq> 0" using assms(1,2) by (simp add: pv)
  show "T_n pv \<noteq> 0" by (simp add: pv)
  show "n pv * K pv \<noteq> 0" by (simp add: pv)
  show "R_sh pv \<noteq> 0" by (simp add: pv)
  have "0 < (q pv * (47.4 * of_int sn)) / (n pv * of_int (72 * sn) * K pv * t)"
    using assms(1,2) by (simp add: pv)
  then show "exp ((q pv * (47.4 * of_int sn)) / (n pv * of_int (72 * sn) * K pv * t)) - 1 \<noteq> 0"
    by simp
qed

lemma modelo_pv_finite_returns:
  assumes nz: "n self * ns * K self * t \<noteq> 0" "T_n self \<noteq> 0" "t \<noteq> 0" "n self * K self \<noteq> 0"
      "exp ((q self * voc) / (n self * ns * K self * t)) - 1 \<noteq> 0" "R_sh self \<noteq> 0"
    and shape: "fsolve_shape fsolve"
    and Ipv: "Ipv = fst (fsolve (f self (I_ph self isc g t) (I_o self (I_rs self isc voc ns t) t) ns t)
                    (map ((*) isc) (replicate 1000 1)) (linspace 0 voc 1000))"
  shows "length Ipv = 1000 \<and>
         (\<exists>k. idxmax (map2 (*) (linspace 0 voc 1000) Ipv) = Some k \<and>
           modelo_pv_finite fsolve self isc voc ns g t =
             Returns (\<lparr> Corriente = Ipv, Voltaje = linspace 0 voc 1000,
                        Potencia = map2 (*) (linspace 0 voc 1000) Ipv \<rparr>,
                      linspace 0 voc 1000 ! k, Ipv ! k, map2 (*) (linspace 0 voc 1000) Ipv ! k))"
proof -
  have len: "length Ipv = 1000"
    using shape unfolding fsolve_shape_def Ipv by simp
  then have "map2 (*) (linspace 0 voc 1000) Ipv \<noteq> []"
    by (auto simp add: length_linspace simp flip: length_0_conv)
  then obtain k where k: "idxmax (map2 (*) (linspace 0 voc 1000) Ipv) = Some k"
    using idxmax_nonempty by blast
  have "modelo_pv_finite fsolve self isc voc ns g t =
             Returns (\<lparr> Corriente = Ipv, Voltaje = linspace 0 voc 1000,
                        Potencia = map2 (*) (linspace 0 voc 1000) Ipv \<rparr>,
                      linspace 0 voc 1000 ! k, Ipv ! k, map2 (*) (linspace 0 voc 1000) Ipv ! k)"
    using nz k unfolding modelo_pv_finite_def Let_def length_linspace Ipv [symmetric]
    by simp
  then show ?thesis using len k by blast
qed

lemma modelo_pv_returns:
  assumes "valid_input s p G T" "fsolve_shape fsolve" "init s p = Inr pv"
  shows "\<exists>sn pn g t Ipv k.
           int_value s = Some sn \<and> 0 < sn \<and> int_value p = Some pn \<and> 0 < pn \<and>
           finite_value G = Some g \<and> 0 < g \<and> finite_value T = Some t \<and> 0 < t \<and>
           Ipv = fst (fsolve (f pv (I_ph pv (9.35 * of_int pn) g t)
                                (I_o pv (I_rs pv (9.35 * of_int pn) (47.4 * of_int sn) (of_int (72 * sn)) t) t)
                                (of_int (72 * sn)) t)
                    (map ((*) (9.35 * of_int pn)) (replicate 1000 1)) (linspace 0 (47.4 * of_int sn) 1000)) \<and>
           length Ipv = 1000 \<and>
           idxmax (map2 (*) (linspace 0 (47.4 * of_int sn) 1000) Ipv) = Some k \<and>
           modelo_pv fsolve pv G T =
             Returns (\<lparr> Corriente = Ipv, Voltaje = linspace 0 (47.4 * of_int sn) 1000,
                        Potencia = map2 (*) (linspace 0 (47.4 * of_int sn) 1000) Ipv \<rparr>,
                      linspace 0 (47.4 * of_int sn) 1000 ! k, Ipv ! k,
                      map2 (*) (linspace 0 (47.4 * of_int sn) 1000) Ipv ! k)"
proof -
  obtain sn where s: "int_value s = Some sn" "0 < sn"
    using assms(1) positive_integer_cases unfolding valid_input_def by blast
  obtain pn where p: "int_value p = Some pn" "0 < pn"
    using assms(1) positive_integer_cases unfolding valid_input_def by blast
  obtain g where g: "finite_value G = Some g" "0 < g"
    using assms(1) positive_finite_cases unfolding valid_input_def by blast
  obtain t where t: "finite_value T = Some t" "0 < t"
    using assms(1) positive_finite_cases unfolding valid_input_def by blast
  define Ipv where "Ipv = fst (fsolve (f pv (I_ph pv (9.35 * of_int pn) g t)
                                (I_o pv (I_rs pv (9.35 * of_int pn) (47.4 * of_int sn) (of_int (72 * sn)) t) t)
                                (of_int (72 * sn)) t)
                    (map ((*) (9.35 * of_int pn)) (replicate 1000 1)) (linspace 0 (47.4 * of_int sn) 1000))"
  have attrs: "I_sc pv = PyFloat (9.35 * of_int pn)" "V_oc pv = PyFloat (47.4 * of_int sn)"
      "N_s pv = PyInt (72 * sn)"
    using assms(3) init_of_integers [OF s(1) p(1)] by auto
  have nz: "n pv * of_int (72 * sn) * K pv * t \<noteq> 0" "T_n pv \<noteq> 0" "t \<noteq> 0" "n pv * K pv \<noteq> 0"
      "exp ((q pv * (47.4 * of_int sn)) / (n pv * of_int (72 * sn) * K pv * t)) - 1 \<noteq> 0"
      "R_sh pv \<noteq> 0"
    using denominators_nonzero [OF s(2) t(2) assms(3) s(1) p(1)] t(2) by auto
  have fin: "length Ipv = 1000 \<and>
         (\<exists>k. idxmax (map2 (*) (linspace 0 (47.4 * of_int sn) 1000) Ipv) = Some k \<and>
           modelo_pv_finite fsolve pv (9.35 * of_int pn) (47.4 * of_int sn) (of_int (72 * sn)) g t =
             Returns (\<lparr> Corriente = Ipv, Voltaje = linspace 0 (47.4 * of_int sn) 1000,
                        Potencia = map2 (*) (linspace 0 (47.4 * of_int sn) 1000) Ipv \<rparr>,
                      linspace 0 (47.4 * of_int sn) 1000 ! k, Ipv ! k,
                      map2 (*) (linspace 0 (47.4 * of_int sn) 1000) Ipv ! k))"
    by (rule modelo_pv_finite_returns [OF nz assms(2) Ipv_def])
  have "modelo_pv fsolve pv G T =
          modelo_pv_finite fsolve pv (9.35 * of_int pn) (47.4 * of_int sn) (of_int (72 * sn)) g t"
    unfolding modelo_pv_def validate_inputs_valid [OF assms(1,3)]
    by (simp add: attrs g t)
  then show ?thesis
    using fin s p g t Ipv_def by metis
qed

lemma fsolve_shape_gives_up: "fsolve_shape gives_up"
  by (simp add: fsolve_shape_def gives_up_def)

lemma valid_input_main: "valid_input (PyInt 4) (PyInt 3) (PyInt 1000) (PyInt 298)"
  by (simp add: valid_input_def positive_integer_def positive_finite_def)

lemma init_valid:
  assumes "valid_input s p G T"
  shows "\<exists>pv. init s p = Inr pv"
proof -
  obtain sn where s: "int_value s = Some sn"
    using assms positive_integer_cases unfolding valid_input_def by blast
  obtain pn where p: "int_value p = Some pn"
    using assms positive_integer_cases unfolding valid_input_def by blast
  show ?thesis using init_of_integers [OF s p] by blast
qed

section \<open>Maximum power point\<close>

text \<open>
  Claim C1. On every valid input \<open>modelo_pv\<close> returns, and the maximum power point it
  returns is read off the curve at one index \<open>k\<close>: \<open>P_max\<close> is the maximum of the power
  column, \<open>Vmpp\<close> and \<open>Impp\<close> are the voltage and the current at \<open>k\<close>, and every earlier
  sample has strictly less power, so \<open>k\<close> is the first index where the maximum occurs.
\<close>

theorem modelo_pv_maximum_power_point:
  assumes "valid_input series parallel G T" and "fsolve_shape fsolve"
  shows "\<exists>pv res Vmpp Impp P_max k.
           init series parallel = Inr pv \<and>
           modelo_pv fsolve pv G T = Returns (res, Vmpp, Impp, P_max) \<and>
           k < length (Potencia res) \<and>
           P_max = Max (set (Potencia res)) \<and>
           P_max = Potencia res ! k \<and> Vmpp = Voltaje res ! k \<and> Impp = Corriente res ! k \<and>
           (\<forall>j<k. Potencia res ! j < P_max)"
proof -
  obtain pv where pv: "init series parallel = Inr pv"
    using init_valid [OF assms(1)] by blast
  obtain sn Ipv k where
    k: "idxmax (map2 (*) (linspace 0 (47.4 * of_int sn) 1000) Ipv) = Some k" and
    ret: "modelo_pv fsolve pv G T =
             Returns (\<lparr> Corriente = Ipv, Voltaje = linspace 0 (47.4 * of_int sn) 1000,
                        Potencia = map2 (*) (linspace 0 (47.4 * of_int sn) 1000) Ipv \<rparr>,
                      linspace 0 (47.4 * of_int sn) 1000 ! k, Ipv ! k,
                      map2 (*) (linspace 0 (47.4 * of_int sn) 1000) Ipv ! k)"
    using modelo_pv_returns [OF assms pv] by blast
  define Ppv where "Ppv = map2 (*) (linspace 0 (47.4 * of_int sn) 1000) Ipv"
  have scan: "k < length Ppv" "\<forall>j<length Ppv. Ppv ! j \<le> Ppv ! k" "\<forall>j<k. Ppv ! j < Ppv ! k"
    using idxmax_first_maximum [OF k] unfolding Ppv_def by blast+
  have "Max (set Ppv) = Ppv ! k"
  proof (rule Max_eqI)
    show "finite (set Ppv)" by simp
    show "Ppv ! k \<in> set Ppv" using scan(1) by simp
    fix y assume "y \<in> set Ppv"
    then show "y \<le> Ppv ! k" using scan(2) by (auto simp add: in_set_conv_nth)
  qed
  then show ?thesis
    using pv ret scan unfolding Ppv_def by (intro exI conjI) (assumption | simp)+
qed

theorem modelo_pv_maximum_power_point_witness:
  "valid_input (PyInt 4) (PyInt 3) (PyInt 1000) (PyInt 298) \<and> fsolve_shape gives_up \<and>
   (\<exists>pv res Vmpp Impp P_max k.
           init (PyInt 4) (PyInt 3) = Inr pv \<and>
           modelo_pv gives_up pv (PyInt 1000) (PyInt 298) = Returns (res, Vmpp, Impp, P_max) \<and>
           k < length (Potencia res) \<and>
           P_max = Max (set (Potencia res)) \<and>
           P_max = Potencia res ! k \<and> Vmpp = Voltaje res ! k \<and> Impp = Corriente res ! k \<and>
           (\<forall>j<k. Potencia res ! j < P_max))"
  using modelo_pv_maximum_power_point [OF valid_input_main fsolve_shape_gives_up]
    valid_input_main fsolve_shape_gives_up by blast

section \<open>The curve\<close>

text \<open>
  Claim C2. On every valid input the voltage column of the returned curve has exactly
  1000 samples, evenly spaced from 0 to the open-circuit voltage of the object: sample
  \<open>i\<close> is \<open>i\<close> times the 999th part of \<open>V_oc\<close>, the first is 0, the last is \<open>V_oc\<close>, and
  the column is strictly increasing.
\<close>

theorem modelo_pv_voltage_sweep:
  assumes "valid_input series parallel G T" and "fsolve_shape fsolve"
  shows "\<exists>pv voc res Vmpp Impp P_max.
           init series parallel = Inr pv \<and> finite_value (V_oc pv) = Some voc \<and>
           modelo_pv fsolve pv G T = Returns (res, Vmpp, Impp, P_max) \<and>
           length (Voltaje res) = 1000 \<and>
           Voltaje res ! 0 = 0 \<and> Voltaje res ! 999 = voc \<and>
           (\<forall>i<1000. Voltaje res ! i = of_nat i * (voc / 999)) \<and>
           (\<forall>i j. i < j \<and> j < 1000 \<longrightarrow> Voltaje res ! i < Voltaje res ! j)"
proof -
  obtain pv where pv: "init series parallel = Inr pv"
    using init_valid [OF assms(1)] by blast
  obtain sn pn Ipv k where
    s: "int_value series = Some sn" "0 < sn" and p: "int_value parallel = Some pn" and
    ret: "modelo_pv fsolve pv G T =
             Returns (\<lparr> Corriente = Ipv, Voltaje = linspace 0 (47.4 * of_int sn) 1000,
                        Potencia = map2 (*) (linspace 0 (47.4 * of_int sn) 1000) Ipv \<rparr>,
                      linspace 0 (47.4 * of_int sn) 1000 ! k, Ipv ! k,
                      map2 (*) (linspace 0 (47.4 * of_int sn) 1000) Ipv ! k)"
    using modelo_pv_returns [OF assms pv] by blast
  define voc :: real where "voc = 47.4 * of_int sn"
  have voc: "finite_value (V_oc pv) = Some voc"
    using pv init_of_integers [OF s(1) p] by (auto simp add: voc_def)
  have pos: "0 < voc" using s(2) by (simp add: voc_def)
  have nth: "linspace 0 voc 1000 ! i = of_nat i * (voc / 999)" if "i < 1000" for i
    using linspace_nth [of 1000 i 0 voc] that by simp
  have mono: "linspace 0 voc 1000 ! i < linspace 0 voc 1000 ! j" if "i < j" "j < 1000" for i j
  proof -
    have "(of_nat i :: real) < of_nat j" using that(1) by simp
    then have "of_nat i * (voc / 999) < of_nat j * (voc / 999)"
      using pos by (simp add: mult_less_cancel_right)
    moreover have "linspace 0 voc 1000 ! i = of_nat i * (voc / 999)"
      using nth [of i] that by linarith
    moreover have "linspace 0 voc 1000 ! j = of_nat j * (voc / 999)"
      using nth [of j] that by blast
    ultimately show ?thesis by (simp only:)
  qed
  have first: "linspace 0 voc 1000 ! 0 = 0" using nth [of 0] by simp
  have last: "linspace 0 voc 1000 ! 999 = voc" using nth [of 999] by simp
  define res where "res = \<lparr> Corriente = Ipv, Voltaje = linspace 0 voc 1000,
                        Potencia = map2 (*) (linspace 0 voc 1000) Ipv \<rparr>"
  have V: "Voltaje res = linspace 0 voc 1000" by (simp add: res_def)
  have ret': "modelo_pv fsolve pv G T =
      Returns (res, linspace 0 voc 1000 ! k, Ipv ! k, map2 (*) (linspace 0 voc 1000) Ipv ! k)"
    using ret unfolding voc_def res_def .
  have "length (Voltaje res) = 1000" unfolding V by (rule length_linspace)
  moreover have "Voltaje res ! 0 = 0" unfolding V by (rule first)
  moreover have "Voltaje res ! 999 = voc" unfolding V by (rule last)
  moreover have "\<forall>i<1000. Voltaje res ! i = of_nat i * (voc / 999)"
    unfolding V using nth by blast
  moreover have "\<forall>i j. i < j \<and> j < 1000 \<longrightarrow> Voltaje res ! i < Voltaje res ! j"
    unfolding V using mono by blast
  ultimately show ?thesis
    using pv voc ret' by blast
qed

theorem modelo_pv_voltage_sweep_witness:
  "valid_input (PyInt 4) (PyInt 3) (PyInt 1000) (PyInt 298) \<and> fsolve_shape gives_up \<and>
   (\<exists>pv voc res Vmpp Impp P_max.
           init (PyInt 4) (PyInt 3) = Inr pv \<and> finite_value (V_oc pv) = Some voc \<and>
           modelo_pv gives_up pv (PyInt 1000) (PyInt 298) = Returns (res, Vmpp, Impp, P_max) \<and>
           length (Voltaje res) = 1000 \<and>
           Voltaje res ! 0 = 0 \<and> Voltaje res ! 999 = voc \<and>
           (\<forall>i<1000. Voltaje res ! i = of_nat i * (voc / 999)) \<and>
           (\<forall>i j. i < j \<and> j < 1000 \<longrightarrow> Voltaje res ! i < Voltaje res ! j))"
  using modelo_pv_voltage_sweep [OF valid_input_main fsolve_shape_gives_up]
    valid_input_main fsolve_shape_gives_up by blast

text \<open>
  Claim C3. On every valid input the three columns of the returned curve have 1000
  entries each, and at every index the power is the product of the voltage and the
  current at that index.
\<close>

theorem modelo_pv_power_is_product:
  assumes "valid_input series parallel G T" and "fsolve_shape fsolve"
  shows "\<exists>pv res Vmpp Impp P_max.
           init series parallel = Inr pv \<and>
           modelo_pv fsolve pv G T = Returns (res, Vmpp, Impp, P_max) \<and>
           length (Voltaje res) = 1000 \<and> length (Corriente res) = 1000 \<and>
           length (Potencia res) = 1000 \<and>
           (\<forall>i<1000. Potencia res ! i = Voltaje res ! i * Corriente res ! i)"
proof -
  obtain pv where pv: "init series parallel = Inr pv"
    using init_valid [OF assms(1)] by blast
  obtain sn Ipv k where
    len: "length Ipv = 1000" and
    ret: "modelo_pv fsolve pv G T =
             Returns (\<lparr> Corriente = Ipv, Voltaje = linspace 0 (47.4 * of_int sn) 1000,
                        Potencia = map2 (*) (linspace 0 (47.4 * of_int sn) 1000) Ipv \<rparr>,
                      linspace 0 (47.4 * of_int sn) 1000 ! k, Ipv ! k,
                      map2 (*) (linspace 0 (47.4 * of_int sn) 1000) Ipv ! k)"
    using modelo_pv_returns [OF assms pv] by blast
  show ?thesis
    using pv ret len length_linspace [of 0 "47.4 * of_int sn" 1000]
    by (intro exI conjI) (assumption | simp)+
qed

theorem modelo_pv_power_is_product_witness:
  "valid_input (PyInt 4) (PyInt 3) (PyInt 1000) (PyInt 298) \<and> fsolve_shape gives_up \<and>
   (\<exists>pv res Vmpp Impp P_max.
           init (PyInt 4) (PyInt 3) = Inr pv \<and>
           modelo_pv gives_up pv (PyInt 1000) (PyInt 298) = Returns (res, Vmpp, Impp, P_max) \<and>
           length (Voltaje res) = 1000 \<and> length (Corriente res) = 1000 \<and>
           length (Potencia res) = 1000 \<and>
           (\<forall>i<1000. Potencia res ! i = Voltaje res ! i * Corriente res ! i))"
  using modelo_pv_power_is_product [OF valid_input_main fsolve_shape_gives_up]
    valid_input_main fsolve_shape_gives_up by blast

section \<open>The constructor\<close>

text \<open>
  Claim C4. For positive integer counts the constructor succeeds, and the object has
  \<open>I_sc\<close> equal to 9.35 times the parallel count, \<open>V_oc\<close> equal to 47.4 times the series
  count, and \<open>N_s\<close> equal to 72 times the series count.
\<close>

theorem init_derived_attributes:
  assumes "int_value series = Some sn" "0 < sn" "int_value parallel = Some pn" "0 < pn"
  shows "\<exists>pv. init series parallel = Inr pv \<and>
           I_sc pv = PyFloat (9.35 * of_int pn) \<and>
           V_oc pv = PyFloat (47.4 * of_int sn) \<and>
           N_s pv = PyInt (72 * sn)"
  using init_of_integers [OF assms(1,3)] by simp

theorem init_derived_attributes_witness:
  "int_value (PyInt 4) = Some 4 \<and> (0::int) < 4 \<and> int_value (PyInt 3) = Some 3 \<and> (0::int) < 3 \<and>
   (\<exists>pv. init (PyInt 4) (PyInt 3) = Inr pv \<and>
           I_sc pv = PyFloat 28.05 \<and> V_oc pv = PyFloat 189.6 \<and> N_s pv = PyInt 288)"
  using init_derived_attributes [of "PyInt 4" 4 "PyInt 3" 3] by simp

section \<open>Validation\<close>

lemma rejected_number_iff:
  "(\<not> isinstance_int_float v \<or> le_zero v) \<longleftrightarrow>
     (\<not> positive_finite v \<and> v \<noteq> PyNaN \<and> v \<noteq> PyPosInf)"
  by (cases v) (auto simp add: positive_finite_def)

lemma rejected_count_iff:
  "(\<not> isinstance_int v \<or> le_zero v) \<longleftrightarrow> \<not> positive_integer v"
  by (cases v) (auto simp add: positive_integer_def)

text \<open>
  Claim C10, as the code has it. \<open>validate_inputs\<close> reports the first failing check in
  the fixed order irradiance, temperature, series count, parallel count, and \<open>modelo_pv\<close>
  raises exactly that error. So when irradiance or temperature is rejected by its check
  (it is not a finite positive number, and is neither NaN nor plus infinity) the call
  fails with the operating-condition error, whatever the array configuration is. NaN and
  plus infinity pass their check: with such an irradiance and temperature, or valid ones,
  and a count that is not a positive integer, the call fails with the
  array-configuration error.
\<close>

theorem validate_inputs_order:
  "validate_inputs self G T = first_failing (checks self G T) \<and>
   (\<forall>e. validate_inputs self G T = Some e \<longrightarrow> modelo_pv fsolve self G T = Raises e) \<and>
   ((\<not> positive_finite G \<and> G \<noteq> PyNaN \<and> G \<noteq> PyPosInf) \<or>
    (\<not> positive_finite T \<and> T \<noteq> PyNaN \<and> T \<noteq> PyPosInf)
      \<longrightarrow> fails_with (modelo_pv fsolve self G T) InvalidOperatingCondition) \<and>
   ((positive_finite G \<or> G = PyNaN \<or> G = PyPosInf) \<and>
    (positive_finite T \<or> T = PyNaN \<or> T = PyPosInf) \<and>
    (\<not> positive_integer (num_panels_series self) \<or>
     \<not> positive_integer (num_panels_parallel self))
      \<longrightarrow> fails_with (modelo_pv fsolve self G T) InvalidArrayConfig)"
proof (intro conjI)
  show "validate_inputs self G T = first_failing (checks self G T)"
    by (simp add: validate_inputs_def first_failing_def checks_def)
  show "\<forall>e. validate_inputs self G T = Some e \<longrightarrow> modelo_pv fsolve self G T = Raises e"
    by (simp add: modelo_pv_def)
  show "(\<not> positive_finite G \<and> G \<noteq> PyNaN \<and> G \<noteq> PyPosInf) \<or>
    (\<not> positive_finite T \<and> T \<noteq> PyNaN \<and> T \<noteq> PyPosInf)
      \<longrightarrow> fails_with (modelo_pv fsolve self G T) InvalidOperatingCondition"
    unfolding rejected_number_iff [symmetric]
    by (auto simp add: modelo_pv_def validate_inputs_def)
  have "\<not> (\<not> isinstance_int_float G \<or> le_zero G) \<and> \<not> (\<not> isinstance_int_float T \<or> le_zero T) \<and>
    ((\<not> isinstance_int (num_panels_series self) \<or> le_zero (num_panels_series self)) \<or>
     (\<not> isinstance_int (num_panels_parallel self) \<or> le_zero (num_panels_parallel self)))
      \<longrightarrow> fails_with (modelo_pv fsolve self G T) InvalidArrayConfig"
    by (auto simp add: modelo_pv_def validate_inputs_def)
  then show "(positive_finite G \<or> G = PyNaN \<or> G = PyPosInf) \<and>
    (positive_finite T \<or> T = PyNaN \<or> T = PyPosInf) \<and>
    (\<not> positive_integer (num_panels_series self) \<or>
     \<not> positive_integer (num_panels_parallel self))
      \<longrightarrow> fails_with (modelo_pv fsolve self G T) InvalidArrayConfig"
    unfolding rejected_number_iff rejected_count_iff by blast
qed

theorem validate_inputs_order_witness:
  "\<exists>pv. init (PyInt 0) (PyInt 3) = Inr pv \<and>
     \<not> positive_finite (PyInt (- 5)) \<and> \<not> positive_integer (num_panels_series pv) \<and>
     validate_inputs pv (PyInt (- 5)) (PyInt 298) = Some (ValueError Irradiancia_msg) \<and>
     modelo_pv gives_up pv (PyInt (- 5)) (PyInt 298) = Raises (ValueError Irradiancia_msg) \<and>
     fails_with (modelo_pv gives_up pv (PyInt (- 5)) (PyInt 298)) InvalidOperatingCondition \<and>
     fails_with (modelo_pv gives_up pv PyNaN (PyInt 298)) InvalidArrayConfig"
proof -
  obtain pv where pv: "init (PyInt 0) (PyInt 3) = Inr pv" "num_panels_series pv = PyInt 0"
    by (simp add: init_def)
  note order = validate_inputs_order [of pv "PyInt (- 5)" "PyInt 298" gives_up]
  have v: "validate_inputs pv (PyInt (- 5)) (PyInt 298) = Some (ValueError Irradiancia_msg)"
    using order by (simp add: first_failing_def checks_def)
  have m: "modelo_pv gives_up pv (PyInt (- 5)) (PyInt 298) = Raises (ValueError Irradiancia_msg)"
    using order v by simp
  have a: "fails_with (modelo_pv gives_up pv PyNaN (PyInt 298)) InvalidArrayConfig"
    using validate_inputs_order [of pv PyNaN "PyInt 298" gives_up] pv(2)
    by (simp add: positive_finite_def positive_integer_def)
  have s: "\<not> positive_finite (PyInt (- 5))" "\<not> positive_integer (num_panels_series pv)"
    using pv(2) by (simp_all add: positive_finite_def positive_integer_def)
  have o: "fails_with (modelo_pv gives_up pv (PyInt (- 5)) (PyInt 298)) InvalidOperatingCondition"
    using m by simp
  show ?thesis
    by (intro exI conjI) (rule pv(1) s v m o a)+
qed

text \<open>
  The claim as stated fails at irradiance NaN with a series count of 0: neither the
  operating condition nor the array configuration is valid, yet the error reported is
  the one of the series count, not the operating-condition error.
\<close>

theorem nan_irradiance_zero_series:
  "\<not> positive_finite PyNaN \<and> \<not> positive_integer (PyInt 0) \<and>
   solve gives_up (PyInt 0) (PyInt 3) PyNaN (PyInt 298) = Raises (ValueError Serie_msg) \<and>
   \<not> fails_with (solve gives_up (PyInt 0) (PyInt 3) PyNaN (PyInt 298)) InvalidOperatingCondition"
  by (simp add: solve_def init_def modelo_pv_def validate_inputs_def positive_finite_def
      positive_integer_def)

lemma modelo_pv_finite_taxonomy:
  "modelo_pv_finite fsolve self isc voc ns g t = Raises e \<Longrightarrow> taxonomy e = None"
  by (auto simp add: modelo_pv_finite_def Let_def split: if_splits option.splits)

lemma modelo_pv_after_validation:
  assumes "validate_inputs self G T = None"
  shows "\<not> fails_with (modelo_pv fsolve self G T) c"
proof (cases "modelo_pv fsolve self G T")
  case (Raises e)
  then have "taxonomy e = None"
    using assms modelo_pv_finite_taxonomy
    by (auto simp add: modelo_pv_def split: option.splits)
  then show ?thesis using Raises by simp
qed simp_all

text \<open>
  Claim C5, as the code has it. \<open>modelo_pv\<close> fails with the operating-condition error
  exactly when irradiance or temperature is not a finite positive number and is neither
  NaN nor plus infinity: those two pass \<open>G <= 0\<close> and are accepted. It fails with the
  array-configuration error exactly when irradiance and temperature are accepted and one
  of the counts is not a positive integer. A rejected call raises the error of
  \<open>validate_inputs\<close> whatever the solver is: the solver is never consulted.
\<close>

theorem modelo_pv_rejections:
  "(fails_with (modelo_pv fsolve self G T) InvalidOperatingCondition \<longleftrightarrow>
      (\<not> positive_finite G \<and> G \<noteq> PyNaN \<and> G \<noteq> PyPosInf) \<or>
      (\<not> positive_finite T \<and> T \<noteq> PyNaN \<and> T \<noteq> PyPosInf)) \<and>
   (fails_with (modelo_pv fsolve self G T) InvalidArrayConfig \<longleftrightarrow>
      \<not> ((\<not> positive_finite G \<and> G \<noteq> PyNaN \<and> G \<noteq> PyPosInf) \<or>
         (\<not> positive_finite T \<and> T \<noteq> PyNaN \<and> T \<noteq> PyPosInf)) \<and>
      (\<not> positive_integer (num_panels_series self) \<or>
       \<not> positive_integer (num_panels_parallel self))) \<and>
   (\<forall>e other. validate_inputs self G T = Some e \<longrightarrow> modelo_pv other self G T = Raises e)"
proof -
  let ?bad = "\<lambda>v. \<not> isinstance_int_float v \<or> le_zero v"
  let ?badc = "\<lambda>v. \<not> isinstance_int v \<or> le_zero v"
  have a: "fails_with (modelo_pv fsolve self G T) InvalidOperatingCondition \<longleftrightarrow> ?bad G \<or> ?bad T"
  proof (cases "validate_inputs self G T")
    case None
    then show ?thesis
      using modelo_pv_after_validation [OF None]
      by (auto simp add: validate_inputs_def split: if_splits)
  next
    case (Some e)
    then show ?thesis
      by (auto simp add: modelo_pv_def validate_inputs_def split: if_splits)
  qed
  have b: "fails_with (modelo_pv fsolve self G T) InvalidArrayConfig \<longleftrightarrow>
      \<not> (?bad G \<or> ?bad T) \<and>
      (?badc (num_panels_series self) \<or> ?badc (num_panels_parallel self))"
  proof (cases "validate_inputs self G T")
    case None
    then show ?thesis
      using modelo_pv_after_validation [OF None]
      by (auto simp add: validate_inputs_def split: if_splits)
  next
    case (Some e)
    then show ?thesis
      by (auto simp add: modelo_pv_def validate_inputs_def split: if_splits)
  qed
  have c: "\<forall>e other. validate_inputs self G T = Some e \<longrightarrow> modelo_pv other self G T = Raises e"
    by (simp add: modelo_pv_def)
  show ?thesis
    using a b c unfolding rejected_number_iff rejected_count_iff by blast
qed

theorem modelo_pv_rejections_witness:
  "\<exists>pv bad. init (PyInt 4) (PyInt 3) = Inr pv \<and> init (PyInt 0) (PyInt 3) = Inr bad \<and>
     fails_with (modelo_pv gives_up pv (PyInt 1000) (PyInt 0)) InvalidOperatingCondition \<and>
     fails_with (modelo_pv gives_up pv (PyInt (- 5)) (PyInt 298)) InvalidOperatingCondition \<and>
     fails_with (modelo_pv gives_up bad (PyInt 1000) (PyInt 298)) InvalidArrayConfig \<and>
     \<not> fails_with (modelo_pv gives_up pv PyNaN (PyInt 298)) InvalidOperatingCondition \<and>
     \<not> fails_with (modelo_pv gives_up pv PyPosInf (PyInt 298)) InvalidOperatingCondition"
proof -
  obtain pv where pv: "init (PyInt 4) (PyInt 3) = Inr pv"
      "num_panels_series pv = PyInt 4" "num_panels_parallel pv = PyInt 3"
    by (simp add: init_def)
  obtain bad where bad: "init (PyInt 0) (PyInt 3) = Inr bad"
      "num_panels_series bad = PyInt 0" "num_panels_parallel bad = PyInt 3"
    by (simp add: init_def)
  have "fails_with (modelo_pv gives_up pv (PyInt 1000) (PyInt 0)) InvalidOperatingCondition"
    using modelo_pv_rejections [of gives_up pv "PyInt 1000" "PyInt 0"]
    by (simp add: positive_finite_def)
  moreover have "fails_with (modelo_pv gives_up pv (PyInt (- 5)) (PyInt 298)) InvalidOperatingCondition"
    using modelo_pv_rejections [of gives_up pv "PyInt (- 5)" "PyInt 298"]
    by (simp add: positive_finite_def)
  moreover have "fails_with (modelo_pv gives_up bad (PyInt 1000) (PyInt 298)) InvalidArrayConfig"
    using modelo_pv_rejections [of gives_up bad "PyInt 1000" "PyInt 298"] bad
    by (simp add: positive_finite_def positive_integer_def)
  moreover have "\<not> fails_with (modelo_pv gives_up pv PyNaN (PyInt 298)) InvalidOperatingCondition"
    using modelo_pv_rejections [of gives_up pv PyNaN "PyInt 298"]
    by (simp add: positive_finite_def)
  moreover have "\<not> fails_with (modelo_pv gives_up pv PyPosInf (PyInt 298)) InvalidOperatingCondition"
    using modelo_pv_rejections [of gives_up pv PyPosInf "PyInt 298"]
    by (simp add: positive_finite_def)
  ultimately show ?thesis using pv(1) bad(1) by blast
qed

text \<open>
  The claim as stated fails at irradiance NaN: NaN is not a finite positive number, yet
  the call does not fail with the operating-condition error.
\<close>

theorem nan_irradiance_not_rejected:
  "\<not> (fails_with (solve gives_up (PyInt 4) (PyInt 3) PyNaN (PyInt 298)) InvalidOperatingCondition
       \<longleftrightarrow> \<not> positive_finite PyNaN \<or> \<not> positive_finite (PyInt 298))"
  by (simp add: solve_def init_def modelo_pv_def validate_inputs_def positive_finite_def)

section \<open>The root finder\<close>

lemma modelo_pv_finite_iterate_only:
  assumes "\<forall>func x0 args. fst (other func x0 args) = fst (fsolve func x0 args)"
  shows "modelo_pv_finite other self isc voc ns g t = modelo_pv_finite fsolve self isc voc ns g t"
  using assms by (simp add: modelo_pv_finite_def)

lemma modelo_pv_iterate_only:
  assumes "\<forall>func x0 args. fst (other func x0 args) = fst (fsolve func x0 args)"
  shows "modelo_pv other self G T = modelo_pv fsolve self G T"
  using modelo_pv_finite_iterate_only [OF assms]
  by (simp add: modelo_pv_def split: option.splits)

lemma modelo_pv_returns_iterate:
  assumes "modelo_pv fsolve self G T = Returns (res, Vmpp, Impp, P_max)"
  shows "\<exists>isc voc ns g t.
           finite_value (I_sc self) = Some isc \<and> finite_value (V_oc self) = Some voc \<and>
           finite_value (N_s self) = Some ns \<and> finite_value G = Some g \<and> finite_value T = Some t \<and>
           Voltaje res = linspace 0 voc 1000 \<and>
           Corriente res =
             fst (fsolve (f self (I_ph self isc g t) (I_o self (I_rs self isc voc ns t) t) ns t)
                    (map ((*) isc) (replicate 1000 1)) (Voltaje res)) \<and>
           Potencia res = map2 (*) (Voltaje res) (Corriente res)"
  using assms
  by (auto simp add: modelo_pv_def modelo_pv_finite_def Let_def length_linspace
      split: option.splits if_splits)

text \<open>
  Claim C6, as the code has it. The convergence report of the solver never reaches the
  outcome of \<open>modelo_pv\<close>: replacing the report by any other leaves the outcome as it is,
  so no error is raised for a sample that has not converged. Whenever the call returns,
  the current column of the curve is the final iterate of the solver for the residual
  \<open>f\<close>, started at \<open>I_sc\<close> on every one of the 1000 samples of the voltage column, and
  the power column is the product of the voltage column and that iterate. With real
  arithmetic the call returns on every valid input.
\<close>

theorem modelo_pv_ignores_convergence:
  "(\<forall>report. modelo_pv (\<lambda>func x0 args. (fst (fsolve func x0 args), report func x0 args)) self G T
      = modelo_pv fsolve self G T) \<and>
   (\<forall>res Vmpp Impp P_max.
      modelo_pv fsolve self G T = Returns (res, Vmpp, Impp, P_max) \<longrightarrow>
        (\<exists>isc voc ns g t.
           finite_value (I_sc self) = Some isc \<and> finite_value (V_oc self) = Some voc \<and>
           finite_value (N_s self) = Some ns \<and> finite_value G = Some g \<and> finite_value T = Some t \<and>
           Voltaje res = linspace 0 voc 1000 \<and>
           Corriente res =
             fst (fsolve (f self (I_ph self isc g t) (I_o self (I_rs self isc voc ns t) t) ns t)
                    (map ((*) isc) (replicate 1000 1)) (Voltaje res)) \<and>
           Potencia res = map2 (*) (Voltaje res) (Corriente res))) \<and>
   (valid_input series parallel G T \<and> fsolve_shape fsolve \<and> init series parallel = Inr self
      \<longrightarrow> returned (modelo_pv fsolve self G T))"
proof (intro conjI allI impI)
  fix report
  show "modelo_pv (\<lambda>func x0 args. (fst (fsolve func x0 args), report func x0 args)) self G T
      = modelo_pv fsolve self G T"
    by (rule modelo_pv_iterate_only) simp
next
  fix res Vmpp Impp P_max
  assume "modelo_pv fsolve self G T = Returns (res, Vmpp, Impp, P_max)"
  then show "\<exists>isc voc ns g t.
           finite_value (I_sc self) = Some isc \<and> finite_value (V_oc self) = Some voc \<and>
           finite_value (N_s self) = Some ns \<and> finite_value G = Some g \<and> finite_value T = Some t \<and>
           Voltaje res = linspace 0 voc 1000 \<and>
           Corriente res =
             fst (fsolve (f self (I_ph self isc g t) (I_o self (I_rs self isc voc ns t) t) ns t)
                    (map ((*) isc) (replicate 1000 1)) (Voltaje res)) \<and>
           Potencia res = map2 (*) (Voltaje res) (Corriente res)"
    by (rule modelo_pv_returns_iterate)
next
  assume a: "valid_input series parallel G T \<and> fsolve_shape fsolve \<and> init series parallel = Inr self"
  then obtain r where "modelo_pv fsolve self G T = Returns r"
    using modelo_pv_returns [of series parallel G T fsolve self] by blast
  then show "returned (modelo_pv fsolve self G T)" by simp
qed

theorem modelo_pv_ignores_convergence_witness:
  "\<exists>pv res Vmpp Impp P_max.
     init (PyInt 4) (PyInt 3) = Inr pv \<and>
     modelo_pv gives_up pv (PyInt 1000) (PyInt 298) = Returns (res, Vmpp, Impp, P_max) \<and>
     Corriente res = map ((*) 28.05) (replicate 1000 1) \<and>
     Potencia res = map2 (*) (Voltaje res) (Corriente res)"
proof -
  obtain pv where pv: "init (PyInt 4) (PyInt 3) = Inr pv"
    using init_valid [OF valid_input_main] by blast
  have isc: "finite_value (I_sc pv) = Some 28.05"
    using pv by (auto simp add: init_def)
  note inst = modelo_pv_ignores_convergence
    [of gives_up pv "PyInt 1000" "PyInt 298" "PyInt 4" "PyInt 3"]
  have "returned (modelo_pv gives_up pv (PyInt 1000) (PyInt 298))"
    using inst valid_input_main fsolve_shape_gives_up pv by blast
  then obtain res Vmpp Impp P_max where
    r: "modelo_pv gives_up pv (PyInt 1000) (PyInt 298) = Returns (res, Vmpp, Impp, P_max)"
    by (cases "modelo_pv gives_up pv (PyInt 1000) (PyInt 298)") auto
  obtain isc' voc ns g t where
    i: "finite_value (I_sc pv) = Some isc'" and
    c: "Corriente res =
             fst (gives_up (f pv (I_ph pv isc' g t) (I_o pv (I_rs pv isc' voc ns t) t) ns t)
                    (map ((*) isc') (replicate 1000 1)) (Voltaje res))" and
    p: "Potencia res = map2 (*) (Voltaje res) (Corriente res)"
    using inst r by blast
  have "isc' = 28.05" using i isc by simp
  then have c': "Corriente res = map ((*) 28.05) (replicate 1000 1)"
    using c by (simp add: gives_up_def)
  show ?thesis
    by (intro exI conjI) (rule pv r c' p)+
qed

text \<open>
  The claim as stated fails: with a solver that never converges the call still returns
  a curve instead of failing.
\<close>

theorem unconverged_solver_returns_curve:
  "(\<forall>func x0 args. \<not> snd (gives_up func x0 args)) \<and>
   returned (solve gives_up (PyInt 4) (PyInt 3) (PyInt 1000) (PyInt 298))"
proof -
  obtain pv where pv: "init (PyInt 4) (PyInt 3) = Inr pv"
    using init_valid [OF valid_input_main] by blast
  obtain r where "modelo_pv gives_up pv (PyInt 1000) (PyInt 298) = Returns r"
    using modelo_pv_returns [OF valid_input_main fsolve_shape_gives_up pv] by blast
  then show ?thesis using pv by (simp add: solve_def gives_up_def)
qed

section \<open>The currents of the diode equation\<close>

text \<open>
  Claim C7. On every valid input the three currents that \<open>modelo_pv\<close> computes are the
  formulas of the specification with the reference temperature 298, which is also the
  attribute \<open>T_n\<close> of the object; and the returned currents are what the solver yields
  for the residual built from these three quantities, started at \<open>I_sc\<close> on every sample
  of the voltage column.
\<close>

theorem modelo_pv_currents:
  assumes "valid_input series parallel G T" and "fsolve_shape fsolve"
  shows "\<exists>pv isc voc ns g t res Vmpp Impp P_max.
           init series parallel = Inr pv \<and>
           finite_value (I_sc pv) = Some isc \<and> finite_value (V_oc pv) = Some voc \<and>
           finite_value (N_s pv) = Some ns \<and> finite_value G = Some g \<and> finite_value T = Some t \<and>
           T_n pv = 298 \<and>
           I_rs pv isc voc ns t = spec_I_rs (q pv) (n pv) (K pv) isc voc ns t \<and>
           I_o pv (I_rs pv isc voc ns t) t =
             spec_I_o (q pv) (n pv) (K pv) (E_g0 pv) 298
               (spec_I_rs (q pv) (n pv) (K pv) isc voc ns t) t \<and>
           I_ph pv isc g t = spec_I_ph (k_i pv) 298 isc g t \<and>
           modelo_pv fsolve pv G T = Returns (res, Vmpp, Impp, P_max) \<and>
           Corriente res =
             fst (fsolve
               (f pv (spec_I_ph (k_i pv) 298 isc g t)
                  (spec_I_o (q pv) (n pv) (K pv) (E_g0 pv) 298
                     (spec_I_rs (q pv) (n pv) (K pv) isc voc ns t) t) ns t)
               (map ((*) isc) (replicate 1000 1)) (Voltaje res))"
proof -
  obtain pv where pv: "init series parallel = Inr pv"
    using init_valid [OF assms(1)] by blast
  obtain sn pn g t Ipv k where
    s: "int_value series = Some sn" and p: "int_value parallel = Some pn" and
    g: "finite_value G = Some g" and t: "finite_value T = Some t" and
    Ipv: "Ipv = fst (fsolve (f pv (I_ph pv (9.35 * of_int pn) g t)
                                (I_o pv (I_rs pv (9.35 * of_int pn) (47.4 * of_int sn) (of_int (72 * sn)) t) t)
                                (of_int (72 * sn)) t)
                    (map ((*) (9.35 * of_int pn)) (replicate 1000 1)) (linspace 0 (47.4 * of_int sn) 1000))" and
    ret: "modelo_pv fsolve pv G T =
             Returns (\<lparr> Corriente = Ipv, Voltaje = linspace 0 (47.4 * of_int sn) 1000,
                        Potencia = map2 (*) (linspace 0 (47.4 * of_int sn) 1000) Ipv \<rparr>,
                      linspace 0 (47.4 * of_int sn) 1000 ! k, Ipv ! k,
                      map2 (*) (linspace 0 (47.4 * of_int sn) 1000) Ipv ! k)"
    using modelo_pv_returns [OF assms pv] by blast
  define isc :: real where "isc = 9.35 * of_int pn"
  define voc :: real where "voc = 47.4 * of_int sn"
  define ns :: real where "ns = of_int (72 * sn)"
  define res where "res = \<lparr> Corriente = Ipv, Voltaje = linspace 0 voc 1000,
                        Potencia = map2 (*) (linspace 0 voc 1000) Ipv \<rparr>"
  have attrs: "finite_value (I_sc pv) = Some isc" "finite_value (V_oc pv) = Some voc"
      "finite_value (N_s pv) = Some ns" "T_n pv = 298"
    using pv init_of_integers [OF s p] by (auto simp add: isc_def voc_def ns_def)
  have irs: "I_rs pv isc voc ns t = spec_I_rs (q pv) (n pv) (K pv) isc voc ns t"
    by (simp add: I_rs_def spec_I_rs_def)
  have io: "I_o pv irs t = spec_I_o (q pv) (n pv) (K pv) (E_g0 pv) 298 irs t" for irs
    by (simp add: I_o_def spec_I_o_def attrs(4))
  have iph: "I_ph pv isc g t = spec_I_ph (k_i pv) 298 isc g t"
    by (simp add: I_ph_def spec_I_ph_def)
  have ret': "modelo_pv fsolve pv G T =
      Returns (res, linspace 0 voc 1000 ! k, Ipv ! k, map2 (*) (linspace 0 voc 1000) Ipv ! k)"
    using ret unfolding voc_def res_def .
  have cur: "Corriente res =
             fst (fsolve
               (f pv (spec_I_ph (k_i pv) 298 isc g t)
                  (spec_I_o (q pv) (n pv) (K pv) (E_g0 pv) 298
                     (spec_I_rs (q pv) (n pv) (K pv) isc voc ns t) t) ns t)
               (map ((*) isc) (replicate 1000 1)) (Voltaje res))"
    using Ipv unfolding isc_def [symmetric] voc_def [symmetric] ns_def [symmetric]
      irs io iph by (simp add: res_def)
  have io': "I_o pv (I_rs pv isc voc ns t) t =
             spec_I_o (q pv) (n pv) (K pv) (E_g0 pv) 298
               (spec_I_rs (q pv) (n pv) (K pv) isc voc ns t) t"
    by (simp only: io irs)
  show ?thesis
    by (intro exI conjI) (rule pv attrs g t irs io' iph ret' cur)+
qed

theorem modelo_pv_currents_witness:
  "valid_input (PyInt 4) (PyInt 3) (PyInt 1000) (PyInt 298) \<and> fsolve_shape gives_up \<and>
   (\<exists>pv isc voc ns g t res Vmpp Impp P_max.
           init (PyInt 4) (PyInt 3) = Inr pv \<and>
           finite_value (I_sc pv) = Some isc \<and> finite_value (V_oc pv) = Some voc \<and>
           finite_value (N_s pv) = Some ns \<and> finite_value (PyInt 1000) = Some g \<and>
           finite_value (PyInt 298) = Some t \<and>
           T_n pv = 298 \<and>
           I_rs pv isc voc ns t = spec_I_rs (q pv) (n pv) (K pv) isc voc ns t \<and>
           I_o pv (I_rs pv isc voc ns t) t =
             spec_I_o (q pv) (n pv) (K pv) (E_g0 pv) 298
               (spec_I_rs (q pv) (n pv) (K pv) isc voc ns t) t \<and>
           I_ph pv isc g t = spec_I_ph (k_i pv) 298 isc g t \<and>
           modelo_pv gives_up pv (PyInt 1000) (PyInt 298) = Returns (res, Vmpp, Impp, P_max) \<and>
           Corriente res =
             fst (gives_up
               (f pv (spec_I_ph (k_i pv) 298 isc g t)
                  (spec_I_o (q pv) (n pv) (K pv) (E_g0 pv) 298
                     (spec_I_rs (q pv) (n pv) (K pv) isc voc ns t) t) ns t)
               (map ((*) isc) (replicate 1000 1)) (Voltaje res)))"
  using modelo_pv_currents [OF valid_input_main fsolve_shape_gives_up]
    valid_input_main fsolve_shape_gives_up by blast

end
